theory Spec2Isabelle
  imports Complex_Main "HOL-Library.Sublist"
begin

section \<open>String operations of the host language\<close>

text \<open>
  Model names are Python strings. They are modelled as \<open>string\<close>, a list of 8-bit
  characters; the names of the registry and the keywords of the detector are ASCII.
  \<open>lower\<close> is \<open>str.lower\<close> on that alphabet: the letters \<open>A\<close> to \<open>Z\<close> move to
  \<open>a\<close> to \<open>z\<close>, every other character is kept.
\<close>

definition char_lower :: "char \<Rightarrow> char" where
  "char_lower c =
     (case map_of (zip ''ABCDEFGHIJKLMNOPQRSTUVWXYZ'' ''abcdefghijklmnopqrstuvwxyz'') c of
        Some l \<Rightarrow> l
      | None \<Rightarrow> c)"

definition lower :: "string \<Rightarrow> string" where
  "lower s = map char_lower s"

text \<open>\<open>contains sub s\<close> is Python's \<open>sub in s\<close>: \<open>sub\<close> occurs in \<open>s\<close> as a
  contiguous substring.\<close>

fun contains :: "string \<Rightarrow> string \<Rightarrow> bool" where
  "contains sub [] = (sub = [])"
| "contains sub (c # cs) = (prefix sub (c # cs) \<or> contains sub cs)"

text \<open>\<open>replace old new s\<close> is Python's \<open>s.replace(old, new)\<close>: every occurrence of
  \<open>old\<close> found by a scan from the left, without overlaps, is replaced by \<open>new\<close>. For an
  empty \<open>old\<close> Python puts \<open>new\<close> before every character and at the end.\<close>

fun replace :: "string \<Rightarrow> string \<Rightarrow> string \<Rightarrow> string" where
  "replace old new [] = (if old = [] then new else [])"
| "replace old new (c # cs) =
     (if old = [] then new @ c # replace old new cs
      else if prefix old (c # cs) then new @ replace old new (drop (length old - 1) cs)
      else c # replace old new cs)"

section \<open>model_mappings.py\<close>

subsection \<open>The model registry and the alias table\<close>

text \<open>
  \<open>ECOLOGITS_MODELS\<close> is imported from the generated module
  \<open>ecologits_models_list\<close>, which \<open>model_mappings.py\<close> does not contain. It is a
  dictionary from provider id to the list of that provider's canonical model names; it
  is taken as a parameter, as the list of its items in iteration order. A dictionary has
  each key once: \<open>distinct (map fst registry)\<close>.
\<close>

type_synonym registry = "(string \<times> string list) list"

type_synonym alias_table = "string \<rightharpoonup> string"

type_synonym model_cache = "string \<rightharpoonup> alias_table"

text \<open>The body of the inner loop of \<open>_build_model_cache\<close>: the writes into
  \<open>cache[provider_str]\<close> for one \<open>model_name\<close>, in the order of the source.\<close>

definition add_anthropic_aliases :: "alias_table \<Rightarrow> string \<Rightarrow> alias_table" where
  "add_anthropic_aliases t0 model_name =
     (let t1 = (if contains ''claude-3-5-'' model_name
                then t0(replace ''claude-3-5-'' ''claude-3.5-'' model_name \<mapsto> model_name)
                else t0);
          t2 = (if contains ''claude-3-7-'' model_name
                then t1(replace ''claude-3-7-'' ''claude-3.7-'' model_name \<mapsto> model_name)
                else t1)
      in if contains ''-latest'' model_name
         then (let base = replace ''-latest'' '''' model_name;
                   t3 = t2(base \<mapsto> model_name);
                   t4 = (if contains ''claude-3-5-'' base
                         then t3(replace ''claude-3-5-'' ''claude-3.5-'' base \<mapsto> model_name)
                         else t3)
               in if contains ''claude-3-7-'' base
                  then t4(replace ''claude-3-7-'' ''claude-3.7-'' base \<mapsto> model_name)
                  else t4)
         else t2)"

definition add_openai_aliases :: "alias_table \<Rightarrow> string \<Rightarrow> alias_table" where
  "add_openai_aliases t0 model_name =
     (let t1 = (if model_name = ''gpt-35-turbo''
                then t0(''gpt35-turbo'' \<mapsto> model_name)
                else t0)
      in if model_name = ''gpt-3.5-turbo''
         then t1(''gpt-3.5'' \<mapsto> model_name, ''gpt35-turbo'' \<mapsto> model_name)
         else t1)"

definition add_model :: "string \<Rightarrow> alias_table \<Rightarrow> string \<Rightarrow> alias_table" where
  "add_model provider_str t model_name =
     (let t1 = t(model_name \<mapsto> model_name, lower model_name \<mapsto> model_name)
      in if provider_str = ''anthropic'' then add_anthropic_aliases t1 model_name
         else if provider_str = ''openai'' then add_openai_aliases t1 model_name
         else t1)"

text \<open>The inner loop starts from the empty table that the outer loop has just stored
  under the provider, and only writes into that table.\<close>

definition build_provider_table :: "string \<Rightarrow> string list \<Rightarrow> alias_table" where
  "build_provider_table provider_str models = foldl (add_model provider_str) Map.empty models"

text \<open>The body of the outer loop: \<open>cache[provider_str] = {}\<close>, then the inner loop on
  that table.\<close>

definition add_provider :: "model_cache \<Rightarrow> string \<times> string list \<Rightarrow> model_cache" where
  "add_provider cache item =
     (case item of (provider_str, models) \<Rightarrow>
        cache(provider_str \<mapsto> build_provider_table provider_str models))"

definition build_model_cache :: "registry \<Rightarrow> model_cache" where
  "build_model_cache registry = foldl add_provider Map.empty registry"

text \<open>\<open>_MODEL_CACHE\<close> is a module global, \<open>None\<close> until the first call of
  \<open>get_model_cache\<close>; the global is passed in and returned.\<close>

definition get_model_cache :: "registry \<Rightarrow> model_cache option \<Rightarrow> model_cache \<times> model_cache option" where
  "get_model_cache registry g =
     (case g of
        None \<Rightarrow> (let c = build_model_cache registry in (c, Some c))
      | Some c \<Rightarrow> (c, Some c))"

subsection \<open>Provider detection\<close>

definition PROVIDER_KEYWORDS :: "(string \<times> string list) list" where
  "PROVIDER_KEYWORDS =
     [(''anthropic'', [''claude'']),
      (''google'', [''gemini'']),
      (''xai'', [''grok'']),
      (''mistralai'', [''mistral'', ''codestral'', ''devstral'', ''magistral'',
                       ''ministral'', ''pixtral'', ''voxtral'']),
      (''cohere'', [''command'', ''aya'']),
      (''openai'', [])]"

text \<open>The two nested loops of \<open>detect_provider\<close>, with the early return: the inner
  loop says whether some keyword of one provider occurs, the outer loop returns the
  first provider for which it does.\<close>

fun keyword_loop :: "string list \<Rightarrow> string \<Rightarrow> bool" where
  "keyword_loop [] model_lower = False"
| "keyword_loop (keyword # keywords) model_lower =
     (if contains keyword model_lower then True else keyword_loop keywords model_lower)"

fun provider_loop :: "(string \<times> string list) list \<Rightarrow> string \<Rightarrow> string option" where
  "provider_loop [] model_lower = None"
| "provider_loop ((provider, keywords) # rest) model_lower =
     (if keyword_loop keywords model_lower then Some provider
      else provider_loop rest model_lower)"

definition detect_provider :: "string \<Rightarrow> string" where
  "detect_provider model_name =
     (let model_lower = lower model_name
      in case provider_loop PROVIDER_KEYWORDS model_lower of
           Some provider \<Rightarrow> provider
         | None \<Rightarrow> ''openai'')"

subsection \<open>Lookup\<close>

text \<open>\<open>cache.get(provider, {})\<close>: an unknown provider has the empty table.\<close>

definition provider_mappings_of :: "model_cache \<Rightarrow> string \<Rightarrow> alias_table" where
  "provider_mappings_of cache provider =
     (case cache provider of Some t \<Rightarrow> t | None \<Rightarrow> Map.empty)"

definition lookup_mapping :: "alias_table \<Rightarrow> string \<Rightarrow> string option" where
  "lookup_mapping provider_mappings model_name =
     (if provider_mappings model_name \<noteq> None then provider_mappings model_name
      else if provider_mappings (lower model_name) \<noteq> None
           then provider_mappings (lower model_name)
      else None)"

definition get_model_mapping ::
    "registry \<Rightarrow> model_cache option \<Rightarrow> string \<Rightarrow> string \<Rightarrow> string option \<times> model_cache option" where
  "get_model_mapping registry g provider model_name =
     (let (cache, g') = get_model_cache registry g
      in (lookup_mapping (provider_mappings_of cache provider) model_name, g'))"

text \<open>The global is only ever \<open>None\<close> or the table built from the registry: it starts
  as \<open>None\<close> and \<open>get_model_cache\<close> is the one place that assigns it.\<close>

definition cache_ok :: "registry \<Rightarrow> model_cache option \<Rightarrow> bool" where
  "cache_ok registry g = (g = None \<or> g = Some (build_model_cache registry))"

text \<open>\<open>registers provider_str model_name alias\<close>: the loop body for \<open>model_name\<close>
  writes the key \<open>alias\<close> (run on an empty table, the key is present afterwards).\<close>

definition registers :: "string \<Rightarrow> string \<Rightarrow> string \<Rightarrow> bool" where
  "registers provider_str model_name alias =
     (add_model provider_str Map.empty model_name alias \<noteq> None)"

text \<open>A table transformer that only stores the value \<open>m\<close>, under keys that do not
  depend on the table it starts from.\<close>

definition writes_of :: "string \<Rightarrow> (alias_table \<Rightarrow> alias_table) \<Rightarrow> bool" where
  "writes_of m f = (\<forall>t k. f t k = (if f Map.empty k \<noteq> None then Some m else t k))"

text \<open>The writes of the anthropic branch, one statement at a time; they are shown
  below to compose to \<open>add_anthropic_aliases\<close>.\<close>

definition dot_alias ::
    "string \<Rightarrow> string \<Rightarrow> alias_table \<Rightarrow> string \<Rightarrow> string \<Rightarrow> alias_table" where
  "dot_alias hyphens dots t name target =
     (if contains hyphens name then t(replace hyphens dots name \<mapsto> target) else t)"

definition latest_alias :: "alias_table \<Rightarrow> string \<Rightarrow> alias_table" where
  "latest_alias t name =
     (if contains ''-latest'' name
      then dot_alias ''claude-3-7-'' ''claude-3.7-''
             (dot_alias ''claude-3-5-'' ''claude-3.5-''
                (t(replace ''-latest'' '''' name \<mapsto> name))
                (replace ''-latest'' '''' name) name)
             (replace ''-latest'' '''' name) name
      else t)"

section \<open>calculate_impact.py\<close>

text \<open>
  The script parses its command line in a first \<open>try\<close> block and exits with status 1
  when that fails. What follows models the second \<open>try\<close> block, which runs on the
  parsed arguments. Floating-point numbers are modelled as reals: the model says which
  expression is computed, not how it is rounded.
\<close>

record arguments =
  input_token_count :: int
  output_token_count :: int
  request_latency :: real
  model_name :: string
  electricity_mix_zone :: "string option"

text \<open>The \<open>.value\<close> of an impact of the estimator's result: a number or a
  \<open>RangeValue\<close> with its \<open>min\<close> and \<open>max\<close>.\<close>

datatype impact_value = Scalar real | RangeValue real real

record phase_impacts =
  phase_gwp :: impact_value
  phase_pe :: impact_value
  phase_adpe :: impact_value

text \<open>\<open>usage\<close> and \<open>embodied\<close> are \<open>None\<close> when the result has no such attribute
  (\<open>hasattr\<close> is false).\<close>

record impacts =
  gwp :: impact_value
  pe :: impact_value
  adpe :: impact_value
  energy :: impact_value
  usage :: "phase_impacts option"
  embodied :: "phase_impacts option"

text \<open>The external estimator \<open>llm_impacts\<close> is a parameter. Either it returns a
  result with the attributes that the script reads, or the call (or the reading of its
  result) raises an exception \<open>e\<close> of class \<open>Exception\<close>, of which the script uses
  \<open>str(e)\<close>. Its arguments are the provider, the mapped model name, the output token
  count, the latency and the electricity mix zone.\<close>

datatype estimate = Raises string | Returns impacts

type_synonym estimator = "string \<Rightarrow> string \<Rightarrow> int \<Rightarrow> real \<Rightarrow> string option \<Rightarrow> estimate"

datatype json = JInt int | JFloat real | JStr string | JObj "(string \<times> json) list"

text \<open>What the process leaves behind: the objects printed on standard output (each
  through \<open>json.dumps\<close>), the text written to standard error, and the exit status.\<close>

record process =
  stdout :: "json list"
  stderr :: "string list"
  exit_code :: int

definition get_value :: "impact_value \<Rightarrow> real" where
  "get_value val = (case val of RangeValue rmin rmax \<Rightarrow> (rmin + rmax) / 2 | Scalar v \<Rightarrow> v)"

definition error_result :: "string \<Rightarrow> json" where
  "error_result message =
     JObj [(''gwp_g'', JInt 0), (''pe_mj'', JInt 0), (''adpe_kgsbeq'', JInt 0),
           (''energy_kwh'', JInt 0), (''error'', JStr message)]"

definition phase_result :: "phase_impacts option \<Rightarrow> json" where
  "phase_result ph =
     (case ph of
        Some i \<Rightarrow>
          JObj [(''gwp_g'', JFloat (get_value (phase_gwp i) * 1000)),
                (''pe_mj'', JFloat (get_value (phase_pe i))),
                (''adpe_kgsbeq'', JFloat (get_value (phase_adpe i)))]
      | None \<Rightarrow>
          JObj [(''gwp_g'', JInt 0), (''pe_mj'', JInt 0), (''adpe_kgsbeq'', JInt 0)])"

definition success_result :: "arguments \<Rightarrow> impacts \<Rightarrow> json" where
  "success_result args i =
     JObj [(''gwp_g'', JFloat (get_value (gwp i) * 1000)),
           (''pe_mj'', JFloat (get_value (pe i))),
           (''adpe_kgsbeq'', JFloat (get_value (adpe i))),
           (''energy_kwh'', JFloat (get_value (energy i))),
           (''usage'', phase_result (usage i)),
           (''embodied'', phase_result (embodied i)),
           (''model'', JStr (model_name args)),
           (''input_tokens'', JInt (input_token_count args)),
           (''output_tokens'', JInt (output_token_count args)),
           (''total_tokens'', JInt (input_token_count args + output_token_count args)),
           (''latency'', JFloat (request_latency args))]"

text \<open>Text helpers for the diagnostic lines: a string between single quotes, a line
  as \<open>print\<close> writes it, and how an optional string is formatted.\<close>

definition quoted :: "string \<Rightarrow> string" where
  "quoted s = [CHR 0x27] @ s @ [CHR 0x27]"

definition line :: "string \<Rightarrow> string" where
  "line s = s @ [CHR 0x0A]"

definition str_of :: "string option \<Rightarrow> string" where
  "str_of s = (case s of None \<Rightarrow> ''None'' | Some v \<Rightarrow> v)"

text \<open>
  The second \<open>try\<close> block. The interpreter starts with \<open>_MODEL_CACHE = None\<close>.
  \<open>not mapped_model_name\<close> holds for \<open>None\<close> and for the empty string;
  \<open>sys.exit(1)\<close> raises \<open>SystemExit\<close>, which \<open>except Exception\<close> does not catch, so
  the not-found branch ends the process with status 1. An exception of the estimator is
  caught by \<open>except Exception\<close>, after which the script runs off its end: status 0.
\<close>

definition main :: "registry \<Rightarrow> estimator \<Rightarrow> arguments \<Rightarrow> process" where
  "main registry llm_impacts args =
     (let log1 = [line (''[EcoPilot] Received model_name: '' @ quoted (model_name args))];
          provider = detect_provider (model_name args);
          log2 = log1 @ [line (''[EcoPilot] Detected provider: '' @ quoted provider)];
          (mapped_model_name, g) = get_model_mapping registry None provider (model_name args);
          log3 = log2 @ [line (''[EcoPilot] Mapped model name: '' @ quoted (str_of mapped_model_name))];
          not_found =
            \<lparr>stdout = [error_result (''Model '' @ quoted (model_name args)
                                      @ '' not found in EcoLogits repository'')],
             stderr = log3 @ [line (''Model '' @ quoted (model_name args)
                                    @ '' not supported by ecologits'')],
             exit_code = 1\<rparr>
      in case mapped_model_name of
           None \<Rightarrow> not_found
         | Some mapped \<Rightarrow>
             if mapped = [] then not_found
             else
               (let log4 =
                      (case electricity_mix_zone args of
                         None \<Rightarrow> log3
                       | Some zone \<Rightarrow>
                           if zone = [] then log3
                           else log3 @ [line (''[EcoPilot] Using electricity mix zone: ''
                                              @ quoted zone)])
                in case llm_impacts provider mapped (output_token_count args)
                          (request_latency args) (electricity_mix_zone args) of
                     Raises message \<Rightarrow>
                       \<lparr>stdout = [error_result message],
                        stderr = log4 @ [message],
                        exit_code = 0\<rparr>
                   | Returns i \<Rightarrow>
                       \<lparr>stdout = [success_result args i],
                        stderr = log4,
                        exit_code = 0\<rparr>))"

text \<open>Reading a field of a printed object.\<close>

definition json_field :: "json \<Rightarrow> string \<Rightarrow> json option" where
  "json_field j k = (case j of JObj kvs \<Rightarrow> map_of kvs k | _ \<Rightarrow> None)"

section \<open>Properties of the alias table\<close>

subsection \<open>What one model writes\<close>

lemma writes_of_id: "writes_of m (\<lambda>t. t)"
  by (simp add: writes_of_def)

lemma writes_of_upd:
  assumes "writes_of m F"
  shows "writes_of m (\<lambda>t. (F t)(a \<mapsto> m))"
  unfolding writes_of_def
proof (intro allI)
  fix t k
  from assms have F: "F t k = (if F Map.empty k \<noteq> None then Some m else t k)"
    unfolding writes_of_def by blast
  show "((F t)(a \<mapsto> m)) k = (if ((F Map.empty)(a \<mapsto> m)) k \<noteq> None then Some m else t k)"
    using F by (cases "k = a") simp_all
qed

lemma writes_of_if:
  assumes "writes_of m F" and "writes_of m G"
  shows "writes_of m (\<lambda>t. if c then F t else G t)"
  using assms by (cases c) simp_all

lemma writes_of_anthropic:
  assumes "writes_of m F"
  shows "writes_of m (\<lambda>t. add_anthropic_aliases (F t) m)"
  unfolding add_anthropic_aliases_def Let_def
  by (intro writes_of_if writes_of_upd assms)

lemma writes_of_openai:
  assumes "writes_of m F"
  shows "writes_of m (\<lambda>t. add_openai_aliases (F t) m)"
  unfolding add_openai_aliases_def Let_def
  by (intro writes_of_if writes_of_upd assms)

lemma writes_of_add_model: "writes_of m (\<lambda>t. add_model p t m)"
  unfolding add_model_def Let_def
  by (intro writes_of_if writes_of_anthropic writes_of_openai writes_of_upd writes_of_id)

lemma add_model_lookup:
  "add_model p t m k = (if registers p m k then Some m else t k)"
  using writes_of_add_model [of m p] unfolding writes_of_def registers_def by blast

lemma foldl_add_model_keep:
  "t k = Some m \<Longrightarrow> (\<forall>m'\<in>set ys. m' \<noteq> m \<longrightarrow> \<not> registers p m' k)
     \<Longrightarrow> foldl (add_model p) t ys k = Some m"
proof (induction ys arbitrary: t)
  case Nil
  then show ?case by simp
next
  case (Cons y ys)
  have "add_model p t y k = Some m"
    using Cons.prems by (cases "y = m") (simp_all add: add_model_lookup)
  with Cons show ?case by simp
qed

lemma foldl_add_model_value:
  "foldl (add_model p) t ms k = Some c \<Longrightarrow> t k = Some c \<or> c \<in> set ms"
proof (induction ms arbitrary: t)
  case Nil
  then show ?case by simp
next
  case (Cons y ys)
  from Cons.IH [of "add_model p t y"] Cons.prems
  have "add_model p t y k = Some c \<or> c \<in> set ys" by simp
  then show ?case by (auto simp: add_model_lookup split: if_splits)
qed

lemma add_provider_apply:
  "add_provider c (p, ms) q = (if q = p then Some (build_provider_table p ms) else c q)"
  by (simp add: add_provider_def)

lemma foldl_add_provider_unknown:
  "provider \<notin> fst ` set registry \<Longrightarrow> foldl add_provider c registry provider = c provider"
proof (induction registry arbitrary: c)
  case Nil
  then show ?case by simp
next
  case (Cons e registry)
  obtain p ms where e: "e = (p, ms)" by (cases e)
  from Cons.prems e have ne: "provider \<noteq> p" and nin: "provider \<notin> fst ` set registry" by auto
  from nin have "foldl add_provider (add_provider c e) registry provider = add_provider c e provider"
    by (rule Cons.IH)
  also have "add_provider c e provider = c provider"
    using ne unfolding e by (simp add: add_provider_apply)
  finally show ?case by simp
qed

lemma foldl_add_provider_known:
  "distinct (map fst registry) \<Longrightarrow> (provider, models) \<in> set registry \<Longrightarrow>
   foldl add_provider c registry provider = Some (build_provider_table provider models)"
proof (induction registry arbitrary: c)
  case Nil
  then show ?case by simp
next
  case (Cons e registry)
  show ?case
  proof (cases "e = (provider, models)")
    case True
    have "fst e \<notin> fst ` set registry" using Cons.prems(1) by simp
    with True have "provider \<notin> fst ` set registry" by simp
    then have "foldl add_provider (add_provider c e) registry provider = add_provider c e provider"
      by (rule foldl_add_provider_unknown)
    also have "add_provider c e provider = Some (build_provider_table provider models)"
      unfolding True by (simp add: add_provider_apply)
    finally show ?thesis by simp
  next
    case False
    with Cons.prems have "distinct (map fst registry)" and "(provider, models) \<in> set registry"
      by auto
    from Cons.IH [OF this] show ?thesis by simp
  qed
qed

lemma foldl_add_provider_some:
  "foldl add_provider c registry provider = Some t \<Longrightarrow>
   c provider = Some t \<or>
   (\<exists>models. (provider, models) \<in> set registry \<and> t = build_provider_table provider models)"
proof (induction registry arbitrary: c)
  case Nil
  then show ?case by simp
next
  case (Cons e registry)
  obtain p ms where e: "e = (p, ms)" by (cases e)
  from Cons.IH [of "add_provider c e"] Cons.prems
  have "add_provider c e provider = Some t \<or>
    (\<exists>models. (provider, models) \<in> set registry \<and> t = build_provider_table provider models)"
    by simp
  moreover have "add_provider c e provider = (if provider = p then Some (build_provider_table p ms) else c provider)"
    unfolding e by (simp add: add_provider_apply)
  ultimately show ?case using e by (auto split: if_splits)
qed

subsection \<open>The aliases of one model\<close>

lemma add_anthropic_aliases_steps:
  "add_anthropic_aliases t m =
     latest_alias (dot_alias ''claude-3-7-'' ''claude-3.7-''
                     (dot_alias ''claude-3-5-'' ''claude-3.5-'' t m m) m m) m"
  by (simp only: add_anthropic_aliases_def latest_alias_def dot_alias_def Let_def)

lemma dot_alias_keep: "t k = Some m \<Longrightarrow> dot_alias h d t n m k = Some m"
  by (simp add: dot_alias_def)

lemma dot_alias_hit: "contains h n \<Longrightarrow> dot_alias h d t n m (replace h d n) = Some m"
  by (simp add: dot_alias_def)

lemma latest_alias_keep: "t k = Some m \<Longrightarrow> latest_alias t m k = Some m"
  by (simp add: latest_alias_def dot_alias_keep)

lemma latest_alias_base:
  "contains ''-latest'' m \<Longrightarrow> latest_alias t m (replace ''-latest'' '''' m) = Some m"
  by (simp add: latest_alias_def dot_alias_keep)

lemma latest_alias_dot_3_5:
  "contains ''-latest'' m \<Longrightarrow> contains ''claude-3-5-'' (replace ''-latest'' '''' m) \<Longrightarrow>
   latest_alias t m (replace ''claude-3-5-'' ''claude-3.5-'' (replace ''-latest'' '''' m)) = Some m"
  by (simp add: latest_alias_def dot_alias_keep dot_alias_hit)

lemma latest_alias_dot_3_7:
  "contains ''-latest'' m \<Longrightarrow> contains ''claude-3-7-'' (replace ''-latest'' '''' m) \<Longrightarrow>
   latest_alias t m (replace ''claude-3-7-'' ''claude-3.7-'' (replace ''-latest'' '''' m)) = Some m"
  by (simp add: latest_alias_def dot_alias_hit)

lemma add_anthropic_aliases_keep:
  "t k = Some m \<Longrightarrow> add_anthropic_aliases t m k = Some m"
  by (simp add: add_anthropic_aliases_steps latest_alias_keep dot_alias_keep)

lemma add_openai_aliases_keep:
  "t k = Some m \<Longrightarrow> add_openai_aliases t m k = Some m"
  by (simp add: add_openai_aliases_def Let_def)

lemma add_model_keep_first:
  "(t(m \<mapsto> m, lower m \<mapsto> m)) k = Some m \<Longrightarrow> add_model p t m k = Some m"
  by (simp add: add_model_def Let_def add_anthropic_aliases_keep add_openai_aliases_keep
           del: fun_upd_apply)

lemma registers_self: "registers p m m"
  unfolding registers_def using add_model_keep_first [of Map.empty m m p] by simp

lemma registers_lower: "registers p m (lower m)"
  unfolding registers_def using add_model_keep_first [of Map.empty m "lower m" p] by simp

lemma registers_anthropic:
  "add_anthropic_aliases (Map.empty(m \<mapsto> m, lower m \<mapsto> m)) m k = Some m \<Longrightarrow>
   registers ''anthropic'' m k"
  by (simp add: registers_def add_model_def Let_def del: fun_upd_apply)

lemma registers_dot_3_5:
  "contains ''claude-3-5-'' m \<Longrightarrow>
   registers ''anthropic'' m (replace ''claude-3-5-'' ''claude-3.5-'' m)"
  by (rule registers_anthropic)
     (simp add: add_anthropic_aliases_steps latest_alias_keep dot_alias_keep dot_alias_hit)

lemma registers_dot_3_7:
  "contains ''claude-3-7-'' m \<Longrightarrow>
   registers ''anthropic'' m (replace ''claude-3-7-'' ''claude-3.7-'' m)"
  by (rule registers_anthropic)
     (simp add: add_anthropic_aliases_steps latest_alias_keep dot_alias_hit)

lemma registers_latest_base:
  "contains ''-latest'' m \<Longrightarrow> registers ''anthropic'' m (replace ''-latest'' '''' m)"
  by (rule registers_anthropic)
     (simp add: add_anthropic_aliases_steps latest_alias_base)

lemma registers_latest_dot_3_5:
  "contains ''-latest'' m \<Longrightarrow> contains ''claude-3-5-'' (replace ''-latest'' '''' m) \<Longrightarrow>
   registers ''anthropic'' m
     (replace ''claude-3-5-'' ''claude-3.5-'' (replace ''-latest'' '''' m))"
  by (rule registers_anthropic)
     (simp add: add_anthropic_aliases_steps latest_alias_dot_3_5)

lemma registers_latest_dot_3_7:
  "contains ''-latest'' m \<Longrightarrow> contains ''claude-3-7-'' (replace ''-latest'' '''' m) \<Longrightarrow>
   registers ''anthropic'' m
     (replace ''claude-3-7-'' ''claude-3.7-'' (replace ''-latest'' '''' m))"
  by (rule registers_anthropic)
     (simp add: add_anthropic_aliases_steps latest_alias_dot_3_7)

subsection \<open>Tables and lookup\<close>

lemma build_provider_table_alias:
  assumes "registers p m k" and "\<forall>m'\<in>set ys. m' \<noteq> m \<longrightarrow> \<not> registers p m' k"
  shows "build_provider_table p (xs @ m # ys) k = Some m"
proof -
  have "add_model p (foldl (add_model p) Map.empty xs) m k = Some m"
    using assms(1) by (simp add: add_model_lookup)
  then have "foldl (add_model p) (add_model p (foldl (add_model p) Map.empty xs) m) ys k = Some m"
    using assms(2) by (rule foldl_add_model_keep)
  then show ?thesis by (simp add: build_provider_table_def)
qed

lemma build_provider_table_value:
  "build_provider_table p ms k = Some c \<Longrightarrow> c \<in> set ms"
  unfolding build_provider_table_def by (drule foldl_add_model_value) simp

lemma get_model_cache_fst:
  "cache_ok registry g \<Longrightarrow> fst (get_model_cache registry g) = build_model_cache registry"
  by (auto simp: cache_ok_def get_model_cache_def Let_def)

lemma get_model_cache_snd:
  "cache_ok registry g \<Longrightarrow> snd (get_model_cache registry g) = Some (build_model_cache registry)"
  by (auto simp: cache_ok_def get_model_cache_def Let_def)

lemma get_model_mapping_fst:
  "cache_ok registry g \<Longrightarrow>
   fst (get_model_mapping registry g provider name) =
     lookup_mapping (provider_mappings_of (build_model_cache registry) provider) name"
  using get_model_cache_fst [of registry g]
  by (simp add: get_model_mapping_def split_beta Let_def)

lemma get_model_mapping_cache_ok:
  "cache_ok registry g \<Longrightarrow> cache_ok registry (snd (get_model_mapping registry g provider name))"
  using get_model_cache_snd [of registry g]
  by (simp add: get_model_mapping_def split_beta Let_def cache_ok_def)

lemma provider_mappings_known:
  "distinct (map fst registry) \<Longrightarrow> (provider, models) \<in> set registry \<Longrightarrow>
   provider_mappings_of (build_model_cache registry) provider = build_provider_table provider models"
  by (simp add: provider_mappings_of_def build_model_cache_def foldl_add_provider_known)

lemma provider_mappings_unknown:
  "provider \<notin> fst ` set registry \<Longrightarrow>
   provider_mappings_of (build_model_cache registry) provider = Map.empty"
  by (simp add: provider_mappings_of_def build_model_cache_def foldl_add_provider_unknown)

lemma lookup_mapping_hit: "t k = Some m \<Longrightarrow> lookup_mapping t k = Some m"
  by (simp add: lookup_mapping_def)

lemma lookup_mapping_value: "lookup_mapping t x = Some c \<Longrightarrow> \<exists>k. t k = Some c"
  by (auto simp: lookup_mapping_def split: if_splits)

lemma resolve_alias:
  assumes "distinct (map fst registry)" and "(p, xs @ m # ys) \<in> set registry"
    and "cache_ok registry g" and "registers p m k"
    and "\<forall>m'\<in>set ys. m' \<noteq> m \<longrightarrow> \<not> registers p m' k"
  shows "fst (get_model_mapping registry g p k) = Some m"
  using assms
  by (simp add: get_model_mapping_fst provider_mappings_known lookup_mapping_hit
        build_provider_table_alias)

subsection \<open>Substrings and replacement\<close>

lemma contains_iff_sublist: "contains sub s \<longleftrightarrow> sublist sub s"
  by (induction s) (auto simp: sublist_Cons_right)

lemma replace_absent: "\<not> contains old s \<Longrightarrow> replace old new s = s"
  by (induction s) auto

lemma replace_prefix:
  "old \<noteq> [] \<Longrightarrow> replace old new (old @ s) = new @ replace old new s"
  by (cases old) simp_all

lemma contains_refl: "contains s s"
  by (cases s) simp_all

lemma contains_append_self: "contains s (b @ s)"
  by (induction b) (simp_all add: contains_refl)

lemma latest_no_straddle:
  assumes "prefix ''-latest'' (xs @ ''-latest'')"
  shows "xs = [] \<or> prefix ''-latest'' xs"
proof -
  from assms consider "prefix ''-latest'' xs"
    | us where "''-latest'' = xs @ us" and "prefix us ''-latest''"
    by (auto simp: prefix_append)
  then show ?thesis
  proof cases
    case 1
    then show ?thesis by simp
  next
    case 2
    then show ?thesis
      by (auto simp: Cons_eq_append_conv)
  qed
qed

lemma replace_latest_suffix:
  "\<not> contains ''-latest'' b \<Longrightarrow> replace ''-latest'' '''' (b @ ''-latest'') = b"
proof (induction b)
  case Nil
  show ?case by simp
next
  case (Cons c cs)
  from Cons.prems have np: "\<not> prefix ''-latest'' (c # cs)" and nc: "\<not> contains ''-latest'' cs"
    by simp_all
  have "\<not> prefix ''-latest'' ((c # cs) @ ''-latest'')"
    using latest_no_straddle [of "c # cs"] np by blast
  then have "replace ''-latest'' '''' ((c # cs) @ ''-latest'') = c # replace ''-latest'' '''' (cs @ ''-latest'')"
    by (simp del: Cons_prefix_Cons)
  with Cons.IH [OF nc] show ?case by simp
qed

section \<open>The claims about the model mapper\<close>

lemmas evals = get_model_mapping_def get_model_cache_def build_model_cache_def add_provider_def
  build_provider_table_def add_model_def add_openai_aliases_def add_anthropic_aliases_def
  provider_mappings_of_def lookup_mapping_def lower_def char_lower_def Let_def

text \<open>
  Claim C1 says that every canonical name \<open>m\<close> of a provider \<open>p\<close> resolves to itself,
  as it is written and lower-cased. The table keeps the last write under a key, so
  this fails when another name of the same provider registers the same key later: a
  registry that lists \<open>GPT-4\<close> and \<open>gpt-4\<close> under one provider resolves the
  lower-cased \<open>GPT-4\<close> to \<open>gpt-4\<close>, and in the other order resolves \<open>gpt-4\<close> to
  \<open>GPT-4\<close>.
\<close>

theorem C1_counterexample:
  "fst (get_model_mapping [(''openai'', [''GPT-4'', ''gpt-4''])] None ''openai'' (lower ''GPT-4''))
     = Some ''gpt-4''
   \<and> fst (get_model_mapping [(''openai'', [''gpt-4'', ''GPT-4''])] None ''openai'' ''gpt-4'')
     = Some ''GPT-4''"
  by (simp add: evals)

text \<open>
  Claim C1, as amended: in a registry with one entry per provider, let \<open>m\<close> be listed
  under \<open>p\<close>, followed by the names \<open>ys\<close>. If no name of \<open>ys\<close> other than \<open>m\<close>
  registers the key \<open>m\<close>, then \<open>get_model_mapping(p, m)\<close> returns \<open>m\<close>; if none
  registers the key \<open>m.lower()\<close>, then \<open>get_model_mapping(p, m.lower())\<close> returns
  \<open>m\<close>.
\<close>

theorem C1_collision_free:
  assumes "distinct (map fst registry)" and "(p, xs @ m # ys) \<in> set registry"
    and "cache_ok registry g"
  shows "((\<forall>m'\<in>set ys. m' \<noteq> m \<longrightarrow> \<not> registers p m' m) \<longrightarrow>
            fst (get_model_mapping registry g p m) = Some m)
       \<and> ((\<forall>m'\<in>set ys. m' \<noteq> m \<longrightarrow> \<not> registers p m' (lower m)) \<longrightarrow>
            fst (get_model_mapping registry g p (lower m)) = Some m)"
  using resolve_alias [OF assms registers_self] resolve_alias [OF assms registers_lower]
  by blast

theorem C1_witness:
  "distinct (map fst [(''openai'', [''GPT-4'', ''gpt-4o''])])
   \<and> (''openai'', [] @ ''GPT-4'' # [''gpt-4o'']) \<in> set [(''openai'', [''GPT-4'', ''gpt-4o''])]
   \<and> cache_ok [(''openai'', [''GPT-4'', ''gpt-4o''])] None
   \<and> \<not> registers ''openai'' ''gpt-4o'' ''GPT-4''
   \<and> \<not> registers ''openai'' ''gpt-4o'' (lower ''GPT-4'')
   \<and> fst (get_model_mapping [(''openai'', [''GPT-4'', ''gpt-4o''])] None ''openai'' ''GPT-4'') = Some ''GPT-4''
   \<and> fst (get_model_mapping [(''openai'', [''GPT-4'', ''gpt-4o''])] None ''openai'' (lower ''GPT-4'')) = Some ''GPT-4''"
proof -
  have d: "distinct (map fst [(''openai'', [''GPT-4'', ''gpt-4o''])])" by simp
  have i: "(''openai'', [] @ ''GPT-4'' # [''gpt-4o'']) \<in> set [(''openai'', [''GPT-4'', ''gpt-4o''])]"
    by simp
  have c: "cache_ok [(''openai'', [''GPT-4'', ''gpt-4o''])] None" by (simp add: cache_ok_def)
  have n1: "\<forall>m'\<in>set [''gpt-4o'']. m' \<noteq> ''GPT-4'' \<longrightarrow> \<not> registers ''openai'' m' ''GPT-4''"
    by (simp add: registers_def add_model_def add_openai_aliases_def lower_def char_lower_def)
  have n2: "\<forall>m'\<in>set [''gpt-4o'']. m' \<noteq> ''GPT-4'' \<longrightarrow> \<not> registers ''openai'' m' (lower ''GPT-4'')"
    by (simp add: registers_def add_model_def add_openai_aliases_def lower_def char_lower_def)
  from n1 have n1': "\<not> registers ''openai'' ''gpt-4o'' ''GPT-4''" by simp
  from n2 have n2': "\<not> registers ''openai'' ''gpt-4o'' (lower ''GPT-4'')" by simp
  from C1_collision_free [OF d i c] n1 n2 n1' n2' d i c show ?thesis by blast
qed

text \<open>
  Claim C2: whenever \<open>get_model_mapping(p, x)\<close> returns a name \<open>c\<close>, the registry lists
  \<open>c\<close> under the provider \<open>p\<close>; the mapper returns no name of its own making.
\<close>

theorem C2_returns_registry_name:
  assumes "cache_ok registry g" and "fst (get_model_mapping registry g p x) = Some c"
  shows "\<exists>models. (p, models) \<in> set registry \<and> c \<in> set models"
proof -
  from assms have "lookup_mapping (provider_mappings_of (build_model_cache registry) p) x = Some c"
    by (simp add: get_model_mapping_fst)
  then obtain k where k: "provider_mappings_of (build_model_cache registry) p k = Some c"
    by (blast dest: lookup_mapping_value)
  then obtain t where t: "build_model_cache registry p = Some t" and tk: "t k = Some c"
    by (auto simp: provider_mappings_of_def split: option.splits)
  from t have "foldl add_provider Map.empty registry p = Some t"
    by (simp add: build_model_cache_def)
  from foldl_add_provider_some [OF this]
  obtain models where "(p, models) \<in> set registry" and "t = build_provider_table p models"
    by auto
  with tk build_provider_table_value show ?thesis by blast
qed

theorem C2_witness:
  "cache_ok [(''anthropic'', [''claude-3-5-sonnet-latest''])] None
   \<and> fst (get_model_mapping [(''anthropic'', [''claude-3-5-sonnet-latest''])] None
            ''anthropic'' ''Claude-3.5-Sonnet'') = Some ''claude-3-5-sonnet-latest''
   \<and> (\<exists>models. (''anthropic'', models) \<in> set [(''anthropic'', [''claude-3-5-sonnet-latest''])]
         \<and> ''claude-3-5-sonnet-latest'' \<in> set models)"
proof -
  have c: "cache_ok [(''anthropic'', [''claude-3-5-sonnet-latest''])] None"
    by (simp add: cache_ok_def)
  have r: "fst (get_model_mapping [(''anthropic'', [''claude-3-5-sonnet-latest''])] None
            ''anthropic'' ''Claude-3.5-Sonnet'') = Some ''claude-3-5-sonnet-latest''"
    by (simp add: evals)
  from C2_returns_registry_name [OF c r] c r show ?thesis by blast
qed

text \<open>
  Claim C3 says that an anthropic name with a \<open>-3-5-\<close> or \<open>-3-7-\<close> segment resolves
  from its form with the segment written \<open>-3.5-\<close> or \<open>-3.7-\<close>. The code looks for
  \<open>claude-3-5-\<close> and \<open>claude-3-7-\<close>, so a name with the segment elsewhere gets no such
  alias; and the alias is lost when a name listed later registers the same key.
\<close>

theorem C3_counterexample:
  "fst (get_model_mapping [(''anthropic'', [''sonnet-3-5-v2''])] None
          ''anthropic'' ''sonnet-3.5-v2'') = None
   \<and> fst (get_model_mapping [(''anthropic'', [''claude-3-5-sonnet'', ''claude-3.5-sonnet''])] None
          ''anthropic'' ''claude-3.5-sonnet'') = Some ''claude-3.5-sonnet''"
  by (simp add: evals)

text \<open>
  Claim C3, as amended: in a registry with one entry per provider, let \<open>m\<close> be listed
  under \<open>anthropic\<close>, followed by the names \<open>ys\<close>. If \<open>m\<close> contains \<open>claude-3-5-\<close> and
  \<open>d\<close> is \<open>m\<close> with every \<open>claude-3-5-\<close> replaced by \<open>claude-3.5-\<close>, and no name of
  \<open>ys\<close> other than \<open>m\<close> registers the key \<open>d\<close>, then
  \<open>get_model_mapping('anthropic', d)\<close> returns \<open>m\<close>; the same holds for
  \<open>claude-3-7-\<close> and \<open>claude-3.7-\<close>.
\<close>

theorem C3_dot_alias:
  assumes "distinct (map fst registry)"
    and "(''anthropic'', xs @ m # ys) \<in> set registry"
    and "cache_ok registry g"
  shows "(contains ''claude-3-5-'' m \<and>
          (\<forall>m'\<in>set ys. m' \<noteq> m \<longrightarrow>
             \<not> registers ''anthropic'' m' (replace ''claude-3-5-'' ''claude-3.5-'' m)) \<longrightarrow>
          fst (get_model_mapping registry g ''anthropic''
                 (replace ''claude-3-5-'' ''claude-3.5-'' m)) = Some m)
       \<and> (contains ''claude-3-7-'' m \<and>
          (\<forall>m'\<in>set ys. m' \<noteq> m \<longrightarrow>
             \<not> registers ''anthropic'' m' (replace ''claude-3-7-'' ''claude-3.7-'' m)) \<longrightarrow>
          fst (get_model_mapping registry g ''anthropic''
                 (replace ''claude-3-7-'' ''claude-3.7-'' m)) = Some m)"
  using resolve_alias [OF assms registers_dot_3_5] resolve_alias [OF assms registers_dot_3_7]
  by blast

theorem C3_witness:
  "distinct (map fst [(''anthropic'', [''claude-3-5-sonnet-20241022'', ''claude-3-7-sonnet-20250219''])])
   \<and> (''anthropic'', [] @ ''claude-3-5-sonnet-20241022'' # [''claude-3-7-sonnet-20250219''])
        \<in> set [(''anthropic'', [''claude-3-5-sonnet-20241022'', ''claude-3-7-sonnet-20250219''])]
   \<and> cache_ok [(''anthropic'', [''claude-3-5-sonnet-20241022'', ''claude-3-7-sonnet-20250219''])] None
   \<and> contains ''claude-3-5-'' ''claude-3-5-sonnet-20241022''
   \<and> replace ''claude-3-5-'' ''claude-3.5-'' ''claude-3-5-sonnet-20241022'' = ''claude-3.5-sonnet-20241022''
   \<and> \<not> registers ''anthropic'' ''claude-3-7-sonnet-20250219'' ''claude-3.5-sonnet-20241022''
   \<and> fst (get_model_mapping [(''anthropic'', [''claude-3-5-sonnet-20241022'', ''claude-3-7-sonnet-20250219''])]
            None ''anthropic'' ''claude-3.5-sonnet-20241022'') = Some ''claude-3-5-sonnet-20241022''"
proof -
  let ?r = "[(''anthropic'', [''claude-3-5-sonnet-20241022'', ''claude-3-7-sonnet-20250219''])]"
  have d: "distinct (map fst ?r)" by simp
  have i: "(''anthropic'', [] @ ''claude-3-5-sonnet-20241022'' # [''claude-3-7-sonnet-20250219'']) \<in> set ?r"
    by simp
  have c: "cache_ok ?r None" by (simp add: cache_ok_def)
  have h: "contains ''claude-3-5-'' ''claude-3-5-sonnet-20241022''" by simp
  have e: "replace ''claude-3-5-'' ''claude-3.5-'' ''claude-3-5-sonnet-20241022'' = ''claude-3.5-sonnet-20241022''"
    by simp
  have n: "\<forall>m'\<in>set [''claude-3-7-sonnet-20250219'']. m' \<noteq> ''claude-3-5-sonnet-20241022'' \<longrightarrow>
         \<not> registers ''anthropic'' m' ''claude-3.5-sonnet-20241022''"
    by (simp add: registers_def add_model_def add_anthropic_aliases_def lower_def char_lower_def)
  from C3_dot_alias [OF d i c] h n have
    "fst (get_model_mapping ?r None ''anthropic''
       (replace ''claude-3-5-'' ''claude-3.5-'' ''claude-3-5-sonnet-20241022'')) = Some ''claude-3-5-sonnet-20241022''"
    unfolding e by blast
  then have "fst (get_model_mapping ?r None ''anthropic'' ''claude-3.5-sonnet-20241022'')
      = Some ''claude-3-5-sonnet-20241022''"
    unfolding e .
  moreover from n have
    "\<not> registers ''anthropic'' ''claude-3-7-sonnet-20250219'' ''claude-3.5-sonnet-20241022''"
    by simp
  ultimately show ?thesis using d i c h e by blast
qed

text \<open>
  Claim C4 says that an anthropic name ending in \<open>-latest\<close> resolves from the name
  without that suffix, and from its dot-joined variant. The code removes every
  \<open>-latest\<close> of the name, not the last one only; a name listed later can take the key
  over; and the dot-joined variant is built for \<open>claude-3-5-\<close> and \<open>claude-3-7-\<close>
  only.
\<close>

theorem C4_counterexample:
  "fst (get_model_mapping [(''anthropic'', [''claude-latest-latest''])] None
          ''anthropic'' ''claude-latest'') = None
   \<and> fst (get_model_mapping [(''anthropic'', [''claude-3-opus-latest'', ''claude-3-opus''])] None
          ''anthropic'' ''claude-3-opus'') = Some ''claude-3-opus''
   \<and> fst (get_model_mapping [(''anthropic'', [''sonnet-3-5-v2-latest''])] None
          ''anthropic'' ''sonnet-3.5-v2'') = None"
  by (simp add: evals)

text \<open>
  Claim C4, as amended: in a registry with one entry per provider, let
  \<open>m = b + '-latest'\<close> be listed under \<open>anthropic\<close>, followed by the names \<open>ys\<close>, where
  \<open>b\<close> contains no \<open>-latest\<close>. If no name of \<open>ys\<close> other than \<open>m\<close> registers the key
  \<open>b\<close>, then \<open>get_model_mapping('anthropic', b)\<close> returns \<open>m\<close>. If \<open>b\<close> contains
  \<open>claude-3-5-\<close> (or \<open>claude-3-7-\<close>) and no name of \<open>ys\<close> other than \<open>m\<close> registers
  the dot-joined variant of \<open>b\<close>, that variant resolves to \<open>m\<close> as well.
\<close>

theorem C4_latest_alias:
  assumes "distinct (map fst registry)"
    and "(''anthropic'', xs @ (b @ ''-latest'') # ys) \<in> set registry"
    and "cache_ok registry g"
    and "\<not> contains ''-latest'' b"
  shows "((\<forall>m'\<in>set ys. m' \<noteq> b @ ''-latest'' \<longrightarrow> \<not> registers ''anthropic'' m' b) \<longrightarrow>
          fst (get_model_mapping registry g ''anthropic'' b) = Some (b @ ''-latest''))
       \<and> (contains ''claude-3-5-'' b \<and>
          (\<forall>m'\<in>set ys. m' \<noteq> b @ ''-latest'' \<longrightarrow>
             \<not> registers ''anthropic'' m' (replace ''claude-3-5-'' ''claude-3.5-'' b)) \<longrightarrow>
          fst (get_model_mapping registry g ''anthropic''
                 (replace ''claude-3-5-'' ''claude-3.5-'' b)) = Some (b @ ''-latest''))
       \<and> (contains ''claude-3-7-'' b \<and>
          (\<forall>m'\<in>set ys. m' \<noteq> b @ ''-latest'' \<longrightarrow>
             \<not> registers ''anthropic'' m' (replace ''claude-3-7-'' ''claude-3.7-'' b)) \<longrightarrow>
          fst (get_model_mapping registry g ''anthropic''
                 (replace ''claude-3-7-'' ''claude-3.7-'' b)) = Some (b @ ''-latest''))"
proof -
  let ?m = "b @ ''-latest''"
  have l: "contains ''-latest'' ?m" by (rule contains_append_self)
  have base: "replace ''-latest'' '''' ?m = b" using assms(4) by (rule replace_latest_suffix)
  have r0: "registers ''anthropic'' ?m b"
    using registers_latest_base [OF l] unfolding base .
  have r5: "contains ''claude-3-5-'' b \<Longrightarrow>
            registers ''anthropic'' ?m (replace ''claude-3-5-'' ''claude-3.5-'' b)"
    using registers_latest_dot_3_5 [OF l] unfolding base .
  have r7: "contains ''claude-3-7-'' b \<Longrightarrow>
            registers ''anthropic'' ?m (replace ''claude-3-7-'' ''claude-3.7-'' b)"
    using registers_latest_dot_3_7 [OF l] unfolding base .
  note res = resolve_alias [OF assms(1,2,3)]
  from res [OF r0] res [OF r5] res [OF r7] show ?thesis by blast
qed

theorem C4_witness:
  "distinct (map fst [(''anthropic'', [''claude-3-5-sonnet-latest'', ''claude-3-opus-latest''])])
   \<and> (''anthropic'', [] @ (''claude-3-5-sonnet'' @ ''-latest'') # [''claude-3-opus-latest''])
        \<in> set [(''anthropic'', [''claude-3-5-sonnet-latest'', ''claude-3-opus-latest''])]
   \<and> cache_ok [(''anthropic'', [''claude-3-5-sonnet-latest'', ''claude-3-opus-latest''])] None
   \<and> \<not> contains ''-latest'' ''claude-3-5-sonnet''
   \<and> \<not> registers ''anthropic'' ''claude-3-opus-latest'' ''claude-3-5-sonnet''
   \<and> contains ''claude-3-5-'' ''claude-3-5-sonnet''
   \<and> replace ''claude-3-5-'' ''claude-3.5-'' ''claude-3-5-sonnet'' = ''claude-3.5-sonnet''
   \<and> \<not> registers ''anthropic'' ''claude-3-opus-latest'' ''claude-3.5-sonnet''
   \<and> fst (get_model_mapping [(''anthropic'', [''claude-3-5-sonnet-latest'', ''claude-3-opus-latest''])]
            None ''anthropic'' ''claude-3-5-sonnet'') = Some ''claude-3-5-sonnet-latest''
   \<and> fst (get_model_mapping [(''anthropic'', [''claude-3-5-sonnet-latest'', ''claude-3-opus-latest''])]
            None ''anthropic'' ''claude-3.5-sonnet'') = Some ''claude-3-5-sonnet-latest''"
proof -
  let ?r = "[(''anthropic'', [''claude-3-5-sonnet-latest'', ''claude-3-opus-latest''])]"
  have d: "distinct (map fst ?r)" by simp
  have i: "(''anthropic'', [] @ (''claude-3-5-sonnet'' @ ''-latest'') # [''claude-3-opus-latest'']) \<in> set ?r"
    by simp
  have c: "cache_ok ?r None" by (simp add: cache_ok_def)
  have nl: "\<not> contains ''-latest'' ''claude-3-5-sonnet''" by simp
  have n0: "\<forall>m'\<in>set [''claude-3-opus-latest'']. m' \<noteq> ''claude-3-5-sonnet'' @ ''-latest'' \<longrightarrow>
         \<not> registers ''anthropic'' m' ''claude-3-5-sonnet''"
    by (simp add: registers_def add_model_def add_anthropic_aliases_def lower_def char_lower_def)
  have h: "contains ''claude-3-5-'' ''claude-3-5-sonnet''" by simp
  have e: "replace ''claude-3-5-'' ''claude-3.5-'' ''claude-3-5-sonnet'' = ''claude-3.5-sonnet''"
    by simp
  have n5: "\<forall>m'\<in>set [''claude-3-opus-latest'']. m' \<noteq> ''claude-3-5-sonnet'' @ ''-latest'' \<longrightarrow>
         \<not> registers ''anthropic'' m' ''claude-3.5-sonnet''"
    by (simp add: registers_def add_model_def add_anthropic_aliases_def lower_def char_lower_def)
  note t = C4_latest_alias [OF d i c nl]
  from t n0 have r0: "fst (get_model_mapping ?r None ''anthropic'' ''claude-3-5-sonnet'')
      = Some (''claude-3-5-sonnet'' @ ''-latest'')"
    by blast
  from t h n5 have r5: "fst (get_model_mapping ?r None ''anthropic''
        (replace ''claude-3-5-'' ''claude-3.5-'' ''claude-3-5-sonnet''))
      = Some (''claude-3-5-sonnet'' @ ''-latest'')"
    unfolding e by blast
  from r0 have r0': "fst (get_model_mapping ?r None ''anthropic'' ''claude-3-5-sonnet'')
      = Some ''claude-3-5-sonnet-latest''" by simp
  from r5 have r5': "fst (get_model_mapping ?r None ''anthropic'' ''claude-3.5-sonnet'')
      = Some ''claude-3-5-sonnet-latest''" unfolding e by simp
  from n0 have n0': "\<not> registers ''anthropic'' ''claude-3-opus-latest'' ''claude-3-5-sonnet''"
    by simp
  from n5 have n5': "\<not> registers ''anthropic'' ''claude-3-opus-latest'' ''claude-3.5-sonnet''"
    by simp
  from d i c nl n0' h e n5' r0' r5' show ?thesis by blast
qed

text \<open>
  Claim C5: for a provider \<open>p\<close> that is not a key of the registry,
  \<open>get_model_mapping(p, x)\<close> returns \<open>None\<close> for every \<open>x\<close>.
\<close>

theorem C5_unknown_provider:
  assumes "cache_ok registry g" and "p \<notin> fst ` set registry"
  shows "fst (get_model_mapping registry g p x) = None"
  using assms
  by (simp add: get_model_mapping_fst provider_mappings_unknown lookup_mapping_def)

theorem C5_witness:
  "cache_ok [(''openai'', [''gpt-4''])] None
   \<and> ''xai'' \<notin> fst ` set [(''openai'', [''gpt-4''])]
   \<and> fst (get_model_mapping [(''openai'', [''gpt-4''])] None ''xai'' ''gpt-4'') = None"
proof -
  have c: "cache_ok [(''openai'', [''gpt-4''])] None" by (simp add: cache_ok_def)
  have n: "''xai'' \<notin> fst ` set [(''openai'', [''gpt-4''])]" by simp
  from C5_unknown_provider [OF c n] c n show ?thesis by blast
qed

section \<open>Properties of the detector and of the script\<close>

lemma keyword_loop_iff: "keyword_loop kws s \<longleftrightarrow> (\<exists>kw\<in>set kws. contains kw s)"
  by (induction kws) auto

lemma provider_loop_none:
  "(\<forall>(p, kws)\<in>set table. \<forall>kw\<in>set kws. \<not> contains kw s) \<Longrightarrow> provider_loop table s = None"
  by (induction table s rule: provider_loop.induct) (auto simp: keyword_loop_iff)

lemma provider_loop_some:
  "provider_loop table s = Some p \<Longrightarrow> p \<in> fst ` set table"
  by (induction table s rule: provider_loop.induct) (auto split: if_splits)

lemma main_not_found:
  assumes "fst (get_model_mapping registry None (detect_provider (model_name args))
                  (model_name args)) = None"
  shows "main registry llm_impacts args =
     \<lparr>stdout = [error_result (''Model '' @ quoted (model_name args)
                                      @ '' not found in EcoLogits repository'')],
      stderr = [line (''[EcoPilot] Received model_name: '' @ quoted (model_name args)),
                line (''[EcoPilot] Detected provider: '' @ quoted (detect_provider (model_name args))),
                line (''[EcoPilot] Mapped model name: '' @ quoted ''None''),
                line (''Model '' @ quoted (model_name args) @ '' not supported by ecologits'')],
      exit_code = 1\<rparr>"
  using assms by (simp add: main_def Let_def split_beta str_of_def)

lemma main_estimate:
  assumes "fst (get_model_mapping registry None (detect_provider (model_name args))
                  (model_name args)) = Some mapped"
    and "mapped \<noteq> []"
  shows "stdout (main registry llm_impacts args) =
           (case llm_impacts (detect_provider (model_name args)) mapped (output_token_count args)
                   (request_latency args) (electricity_mix_zone args) of
              Raises message \<Rightarrow> [error_result message]
            | Returns i \<Rightarrow> [success_result args i])"
    and "exit_code (main registry llm_impacts args) = 0"
  using assms by (simp_all add: main_def Let_def split_beta split: estimate.splits)

lemmas script_evals = evals detect_provider_def PROVIDER_KEYWORDS_def

section \<open>The claims about the detector and the script\<close>

text \<open>
  Claim C6: when the lower-cased input contains no keyword of any provider of the
  keyword table, \<open>detect_provider\<close> returns \<open>openai\<close>, which is the one provider of
  the table with an empty keyword list; and on every input \<open>detect_provider\<close> returns
  a provider id of the table (it has no failing branch).
\<close>

theorem C6_detect_provider_default:
  "((\<forall>(p, kws)\<in>set PROVIDER_KEYWORDS. \<forall>kw\<in>set kws. \<not> contains kw (lower x)) \<longrightarrow>
      detect_provider x = ''openai'')
   \<and> detect_provider x \<in> fst ` set PROVIDER_KEYWORDS
   \<and> (\<forall>(p, kws)\<in>set PROVIDER_KEYWORDS. (kws = []) = (p = ''openai''))"
proof (intro conjI impI)
  assume "\<forall>(p, kws)\<in>set PROVIDER_KEYWORDS. \<forall>kw\<in>set kws. \<not> contains kw (lower x)"
  then have "provider_loop PROVIDER_KEYWORDS (lower x) = None" by (rule provider_loop_none)
  then show "detect_provider x = ''openai''" by (simp add: detect_provider_def)
next
  show "detect_provider x \<in> fst ` set PROVIDER_KEYWORDS"
  proof (cases "provider_loop PROVIDER_KEYWORDS (lower x)")
    case None
    then have "detect_provider x = ''openai''" by (simp add: detect_provider_def)
    then show ?thesis by (simp add: PROVIDER_KEYWORDS_def)
  next
    case (Some p)
    then have "detect_provider x = p" by (simp add: detect_provider_def)
    with provider_loop_some [OF Some] show ?thesis by simp
  qed
next
  show "\<forall>(p, kws)\<in>set PROVIDER_KEYWORDS. (kws = []) = (p = ''openai'')"
    by (simp add: PROVIDER_KEYWORDS_def)
qed

theorem C6_witness:
  "list_all (\<lambda>(p, kws). list_all (\<lambda>kw. \<not> contains kw (lower ''GPT-4'')) kws) PROVIDER_KEYWORDS
   \<and> detect_provider ''GPT-4'' = ''openai''
   \<and> detect_provider ''GPT-4'' \<in> fst ` set PROVIDER_KEYWORDS"
proof -
  have h: "\<forall>(p, kws)\<in>set PROVIDER_KEYWORDS. \<forall>kw\<in>set kws. \<not> contains kw (lower ''GPT-4'')"
    by (simp add: PROVIDER_KEYWORDS_def lower_def char_lower_def)
  have h': "list_all (\<lambda>(p, kws). list_all (\<lambda>kw. \<not> contains kw (lower ''GPT-4'')) kws)
              PROVIDER_KEYWORDS"
    by (simp add: PROVIDER_KEYWORDS_def lower_def char_lower_def)
  from h h' C6_detect_provider_default [of "''GPT-4''"] show ?thesis by blast
qed

text \<open>
  Claim C7: when the mapping of the detected provider returns \<open>None\<close> for the given
  model name, standard output holds exactly one object, whose \<open>gwp_g\<close>, \<open>pe_mj\<close>,
  \<open>adpe_kgsbeq\<close> and \<open>energy_kwh\<close> are 0 and whose \<open>error\<close> is a non-empty string,
  and the exit status is 1.
\<close>

theorem C7_model_not_found:
  assumes "fst (get_model_mapping registry None (detect_provider (model_name args))
                  (model_name args)) = None"
  shows "stdout (main registry llm_impacts args) =
           [JObj [(''gwp_g'', JInt 0), (''pe_mj'', JInt 0), (''adpe_kgsbeq'', JInt 0),
                  (''energy_kwh'', JInt 0),
                  (''error'', JStr (''Model '' @ quoted (model_name args)
                                    @ '' not found in EcoLogits repository''))]]
       \<and> ''Model '' @ quoted (model_name args) @ '' not found in EcoLogits repository'' \<noteq> []
       \<and> exit_code (main registry llm_impacts args) = 1"
  by (simp add: main_not_found [OF assms] error_result_def)

theorem C7_witness:
  "fst (get_model_mapping [(''openai'', [''gpt-4''])] None
          (detect_provider (model_name
             \<lparr>input_token_count = 1, output_token_count = 1, request_latency = 1 / 10,
              model_name = ''totally-unknown-model'', electricity_mix_zone = None\<rparr>))
          (model_name
             \<lparr>input_token_count = 1, output_token_count = 1, request_latency = 1 / 10,
              model_name = ''totally-unknown-model'', electricity_mix_zone = None\<rparr>)) = None
   \<and> stdout (main [(''openai'', [''gpt-4''])] (\<lambda>p m n l z. Raises ''unused'')
        \<lparr>input_token_count = 1, output_token_count = 1, request_latency = 1 / 10,
         model_name = ''totally-unknown-model'', electricity_mix_zone = None\<rparr>) =
           [JObj [(''gwp_g'', JInt 0), (''pe_mj'', JInt 0), (''adpe_kgsbeq'', JInt 0),
                  (''energy_kwh'', JInt 0),
                  (''error'', JStr (''Model '' @ quoted ''totally-unknown-model''
                                    @ '' not found in EcoLogits repository''))]]
   \<and> exit_code (main [(''openai'', [''gpt-4''])] (\<lambda>p m n l z. Raises ''unused'')
        \<lparr>input_token_count = 1, output_token_count = 1, request_latency = 1 / 10,
         model_name = ''totally-unknown-model'', electricity_mix_zone = None\<rparr>) = 1"
proof -
  let ?a = "\<lparr>input_token_count = 1, output_token_count = 1, request_latency = 1 / 10,
             model_name = ''totally-unknown-model'', electricity_mix_zone = None\<rparr>"
  have h: "fst (get_model_mapping [(''openai'', [''gpt-4''])] None
                  (detect_provider (model_name ?a)) (model_name ?a)) = None"
    by (simp add: script_evals)
  from C7_model_not_found [OF h, of "\<lambda>p m n l z. Raises ''unused''"] h
  show ?thesis by simp
qed

text \<open>
  Claim C8: when the model is mapped and the estimator raises an exception with
  message \<open>message\<close>, standard output holds one object with the four numeric fields 0
  and \<open>error\<close> equal to \<open>message\<close>, and the exit status is 0.
\<close>

theorem C8_estimator_failure:
  assumes "fst (get_model_mapping registry None (detect_provider (model_name args))
                  (model_name args)) = Some mapped"
    and "mapped \<noteq> []"
    and "llm_impacts (detect_provider (model_name args)) mapped (output_token_count args)
           (request_latency args) (electricity_mix_zone args) = Raises message"
  shows "stdout (main registry llm_impacts args) =
           [JObj [(''gwp_g'', JInt 0), (''pe_mj'', JInt 0), (''adpe_kgsbeq'', JInt 0),
                  (''energy_kwh'', JInt 0), (''error'', JStr message)]]
       \<and> exit_code (main registry llm_impacts args) = 0"
  using main_estimate [OF assms(1,2), of llm_impacts] assms(3)
  by (simp add: error_result_def)

theorem C8_witness:
  "fst (get_model_mapping [(''openai'', [''gpt-4''])] None
          (detect_provider (model_name
             \<lparr>input_token_count = 100, output_token_count = 50, request_latency = 12 / 10,
              model_name = ''gpt-4'', electricity_mix_zone = None\<rparr>))
          (model_name
             \<lparr>input_token_count = 100, output_token_count = 50, request_latency = 12 / 10,
              model_name = ''gpt-4'', electricity_mix_zone = None\<rparr>)) = Some ''gpt-4''
   \<and> ''gpt-4'' \<noteq> []
   \<and> stdout (main [(''openai'', [''gpt-4''])] (\<lambda>p m n l z. Raises ''no such zone'')
        \<lparr>input_token_count = 100, output_token_count = 50, request_latency = 12 / 10,
         model_name = ''gpt-4'', electricity_mix_zone = None\<rparr>) =
           [JObj [(''gwp_g'', JInt 0), (''pe_mj'', JInt 0), (''adpe_kgsbeq'', JInt 0),
                  (''energy_kwh'', JInt 0), (''error'', JStr ''no such zone'')]]
   \<and> exit_code (main [(''openai'', [''gpt-4''])] (\<lambda>p m n l z. Raises ''no such zone'')
        \<lparr>input_token_count = 100, output_token_count = 50, request_latency = 12 / 10,
         model_name = ''gpt-4'', electricity_mix_zone = None\<rparr>) = 0"
proof -
  let ?a = "\<lparr>input_token_count = 100, output_token_count = 50, request_latency = 12 / 10,
             model_name = ''gpt-4'', electricity_mix_zone = None\<rparr>"
  let ?e = "(\<lambda>p m n l z. Raises ''no such zone'') :: estimator"
  have h: "fst (get_model_mapping [(''openai'', [''gpt-4''])] None
                  (detect_provider (model_name ?a)) (model_name ?a)) = Some ''gpt-4''"
    by (simp add: script_evals)
  have n: "''gpt-4'' \<noteq> []" by simp
  have r: "?e (detect_provider (model_name ?a)) ''gpt-4'' (output_token_count ?a)
             (request_latency ?a) (electricity_mix_zone ?a) = Raises ''no such zone''"
    by simp
  from C8_estimator_failure [OF h n r] h show ?thesis by simp
qed

text \<open>
  Claim C9 says that the scalar emitted for each of \<open>gwp\<close>, \<open>pe\<close>, \<open>adpe\<close> and
  \<open>energy\<close> is the midpoint of a range, or the scalar itself. For \<open>gwp\<close> the script
  multiplies by 1000 (kilograms to grams) before it emits \<open>gwp_g\<close>: the range from 1
  to 3 has midpoint 2 and is emitted as 2000.
\<close>

theorem C9_counterexample:
  "get_value (RangeValue 1 3) = 2
   \<and> map (\<lambda>j. json_field j ''gwp_g'')
        (stdout (main [(''openai'', [''gpt-4''])]
           (\<lambda>p m n l z. Returns \<lparr>gwp = RangeValue 1 3, pe = Scalar 5, adpe = RangeValue 0 1,
                                  energy = Scalar 2, usage = None, embodied = None\<rparr>)
           \<lparr>input_token_count = 100, output_token_count = 50, request_latency = 12 / 10,
            model_name = ''gpt-4'', electricity_mix_zone = None\<rparr>))
     = [Some (JFloat 2000)]
   \<and> JFloat 2000 \<noteq> JFloat (get_value (RangeValue 1 3))"
proof -
  let ?a = "\<lparr>input_token_count = 100, output_token_count = 50, request_latency = 12 / 10,
             model_name = ''gpt-4'', electricity_mix_zone = None\<rparr>"
  have h: "fst (get_model_mapping [(''openai'', [''gpt-4''])] None
                  (detect_provider (model_name ?a)) (model_name ?a)) = Some ''gpt-4''"
    by (simp add: script_evals)
  have n: "''gpt-4'' \<noteq> []" by simp
  from main_estimate(1) [OF h n, of "\<lambda>p m n l z. Returns \<lparr>gwp = RangeValue 1 3, pe = Scalar 5,
        adpe = RangeValue 0 1, energy = Scalar 2, usage = None, embodied = None\<rparr>"]
  show ?thesis
    by (simp add: get_value_def success_result_def json_field_def)
qed

text \<open>
  Claim C9, as amended: \<open>get_value\<close> of a range is \<open>(min + max) / 2\<close> and of a scalar
  is the scalar. On the success path the script emits \<open>get_value\<close> of the estimator's
  \<open>pe\<close>, \<open>adpe\<close> and \<open>energy\<close> as \<open>pe_mj\<close>, \<open>adpe_kgsbeq\<close> and \<open>energy_kwh\<close>, and
  \<open>get_value\<close> of its \<open>gwp\<close> multiplied by 1000 as \<open>gwp_g\<close>.
\<close>

theorem C9_midpoint:
  assumes "fst (get_model_mapping registry None (detect_provider (model_name args))
                  (model_name args)) = Some mapped"
    and "mapped \<noteq> []"
    and "llm_impacts (detect_provider (model_name args)) mapped (output_token_count args)
           (request_latency args) (electricity_mix_zone args) = Returns i"
  shows "get_value (RangeValue lo hi) = (lo + hi) / 2
       \<and> get_value (Scalar v) = v
       \<and> map (\<lambda>j. json_field j ''gwp_g'') (stdout (main registry llm_impacts args))
           = [Some (JFloat (get_value (gwp i) * 1000))]
       \<and> map (\<lambda>j. json_field j ''pe_mj'') (stdout (main registry llm_impacts args))
           = [Some (JFloat (get_value (pe i)))]
       \<and> map (\<lambda>j. json_field j ''adpe_kgsbeq'') (stdout (main registry llm_impacts args))
           = [Some (JFloat (get_value (adpe i)))]
       \<and> map (\<lambda>j. json_field j ''energy_kwh'') (stdout (main registry llm_impacts args))
           = [Some (JFloat (get_value (energy i)))]"
  using main_estimate(1) [OF assms(1,2), of llm_impacts] assms(3)
  by (simp add: get_value_def success_result_def json_field_def)

theorem C9_witness:
  "fst (get_model_mapping [(''openai'', [''gpt-4''])] None
          (detect_provider (model_name
             \<lparr>input_token_count = 100, output_token_count = 50, request_latency = 12 / 10,
              model_name = ''gpt-4'', electricity_mix_zone = None\<rparr>))
          (model_name
             \<lparr>input_token_count = 100, output_token_count = 50, request_latency = 12 / 10,
              model_name = ''gpt-4'', electricity_mix_zone = None\<rparr>)) = Some ''gpt-4''
   \<and> ''gpt-4'' \<noteq> []
   \<and> map (\<lambda>j. json_field j ''gwp_g'')
        (stdout (main [(''openai'', [''gpt-4''])]
           (\<lambda>p m n l z. Returns \<lparr>gwp = RangeValue 1 3, pe = Scalar 5, adpe = RangeValue 0 1,
                                  energy = Scalar 2, usage = None, embodied = None\<rparr>)
           \<lparr>input_token_count = 100, output_token_count = 50, request_latency = 12 / 10,
            model_name = ''gpt-4'', electricity_mix_zone = None\<rparr>))
     = [Some (JFloat 2000)]
   \<and> map (\<lambda>j. json_field j ''pe_mj'')
        (stdout (main [(''openai'', [''gpt-4''])]
           (\<lambda>p m n l z. Returns \<lparr>gwp = RangeValue 1 3, pe = Scalar 5, adpe = RangeValue 0 1,
                                  energy = Scalar 2, usage = None, embodied = None\<rparr>)
           \<lparr>input_token_count = 100, output_token_count = 50, request_latency = 12 / 10,
            model_name = ''gpt-4'', electricity_mix_zone = None\<rparr>))
     = [Some (JFloat 5)]
   \<and> map (\<lambda>j. json_field j ''adpe_kgsbeq'')
        (stdout (main [(''openai'', [''gpt-4''])]
           (\<lambda>p m n l z. Returns \<lparr>gwp = RangeValue 1 3, pe = Scalar 5, adpe = RangeValue 0 1,
                                  energy = Scalar 2, usage = None, embodied = None\<rparr>)
           \<lparr>input_token_count = 100, output_token_count = 50, request_latency = 12 / 10,
            model_name = ''gpt-4'', electricity_mix_zone = None\<rparr>))
     = [Some (JFloat (1 / 2))]"
proof -
  let ?a = "\<lparr>input_token_count = 100, output_token_count = 50, request_latency = 12 / 10,
             model_name = ''gpt-4'', electricity_mix_zone = None\<rparr>"
  let ?i = "\<lparr>gwp = RangeValue 1 3, pe = Scalar 5, adpe = RangeValue 0 1,
             energy = Scalar 2, usage = None, embodied = None\<rparr>"
  let ?e = "(\<lambda>p m n l z. Returns ?i) :: estimator"
  have h: "fst (get_model_mapping [(''openai'', [''gpt-4''])] None
                  (detect_provider (model_name ?a)) (model_name ?a)) = Some ''gpt-4''"
    by (simp add: script_evals)
  have n: "''gpt-4'' \<noteq> []" by simp
  have r: "?e (detect_provider (model_name ?a)) ''gpt-4'' (output_token_count ?a)
             (request_latency ?a) (electricity_mix_zone ?a) = Returns ?i"
    by simp
  from C9_midpoint [OF h n r] h show ?thesis by (simp add: get_value_def)
qed

text \<open>
  Claim C10: for a model name whose lower-cased form contains \<open>grok\<close> and neither
  \<open>claude\<close> nor \<open>gemini\<close>, \<open>detect_provider\<close> returns \<open>xai\<close>; when \<open>xai\<close> is not a
  key of the registry, \<open>get_model_mapping('xai', x)\<close> returns \<open>None\<close> for every
  \<open>x\<close>, and the script ends in the not-found branch: the error object on standard
  output and exit status 1.
\<close>

theorem C10_grok_not_found:
  assumes "contains ''grok'' (lower (model_name args))"
    and "\<not> contains ''claude'' (lower (model_name args))"
    and "\<not> contains ''gemini'' (lower (model_name args))"
    and "''xai'' \<notin> fst ` set registry"
  shows "detect_provider (model_name args) = ''xai''
       \<and> (\<forall>g x. cache_ok registry g \<longrightarrow> fst (get_model_mapping registry g ''xai'' x) = None)
       \<and> stdout (main registry llm_impacts args) =
           [error_result (''Model '' @ quoted (model_name args)
                          @ '' not found in EcoLogits repository'')]
       \<and> exit_code (main registry llm_impacts args) = 1"
proof -
  have d: "detect_provider (model_name args) = ''xai''"
    using assms(1,2,3) by (simp add: detect_provider_def PROVIDER_KEYWORDS_def)
  have m: "fst (get_model_mapping registry g ''xai'' x) = None" if "cache_ok registry g" for g x
    using that assms(4)
    by (simp add: get_model_mapping_fst provider_mappings_unknown lookup_mapping_def)
  have "cache_ok registry None" by (simp add: cache_ok_def)
  then have "fst (get_model_mapping registry None (detect_provider (model_name args))
                    (model_name args)) = None"
    unfolding d by (rule m)
  from main_not_found [OF this, of llm_impacts] d m show ?thesis by simp
qed

theorem C10_witness:
  "contains ''grok'' (lower (model_name
      \<lparr>input_token_count = 10, output_token_count = 5, request_latency = 1 / 2,
       model_name = ''Grok-2'', electricity_mix_zone = None\<rparr>))
   \<and> \<not> contains ''claude'' (lower ''Grok-2'')
   \<and> \<not> contains ''gemini'' (lower ''Grok-2'')
   \<and> ''xai'' \<notin> fst ` set [(''openai'', [''gpt-4''])]
   \<and> detect_provider ''Grok-2'' = ''xai''
   \<and> cache_ok [(''openai'', [''gpt-4''])] None
   \<and> fst (get_model_mapping [(''openai'', [''gpt-4''])] None ''xai'' ''Grok-2'') = None
   \<and> exit_code (main [(''openai'', [''gpt-4''])] (\<lambda>p m n l z. Raises ''unused'')
        \<lparr>input_token_count = 10, output_token_count = 5, request_latency = 1 / 2,
         model_name = ''Grok-2'', electricity_mix_zone = None\<rparr>) = 1"
proof -
  let ?a = "\<lparr>input_token_count = 10, output_token_count = 5, request_latency = 1 / 2,
             model_name = ''Grok-2'', electricity_mix_zone = None\<rparr>"
  have l: "lower ''Grok-2'' = ''grok-2''" by (simp add: lower_def char_lower_def)
  have h1: "contains ''grok'' (lower (model_name ?a))" by (simp add: l)
  have h2: "\<not> contains ''claude'' (lower (model_name ?a))" by (simp add: l)
  have h3: "\<not> contains ''gemini'' (lower (model_name ?a))" by (simp add: l)
  have h4: "''xai'' \<notin> fst ` set [(''openai'', [''gpt-4''])]" by simp
  have c: "cache_ok [(''openai'', [''gpt-4''])] None" by (simp add: cache_ok_def)
  from C10_grok_not_found [OF h1 h2 h3 h4, of "\<lambda>p m n l z. Raises ''unused''"] h1 h2 h3 h4 c
  show ?thesis by simp
qed

end
